theory Spec2Isabelle
  imports Complex_Main
begin

section \<open>JavaScript numbers\<close>

text \<open>
  The engines compute on JavaScript numbers. A finite number is idealised as a real
  (no rounding, no overflow); the two infinities and NaN, which division by zero and
  \<open>Math.pow\<close> on a negative base produce, are values of their own. Zero is unsigned:
  the inputs are read from form fields and literals and are never \<open>-0\<close>.
  The arguments of the functions below are finite numbers and have type \<open>real\<close> (an
  emptied form field can also deliver NaN, which no property here is about); a value
  that an unguarded division may have made non-finite has type \<open>jsnum\<close>.
\<close>

datatype jsnum = Finite real | PosInfinity | NegInfinity | NaN

fun jneg :: "jsnum \<Rightarrow> jsnum" where
  "jneg (Finite a) = Finite (- a)"
| "jneg PosInfinity = NegInfinity"
| "jneg NegInfinity = PosInfinity"
| "jneg NaN = NaN"

fun jadd :: "jsnum \<Rightarrow> jsnum \<Rightarrow> jsnum" where
  "jadd NaN _ = NaN"
| "jadd _ NaN = NaN"
| "jadd (Finite a) (Finite b) = Finite (a + b)"
| "jadd PosInfinity NegInfinity = NaN"
| "jadd NegInfinity PosInfinity = NaN"
| "jadd PosInfinity _ = PosInfinity"
| "jadd _ PosInfinity = PosInfinity"
| "jadd NegInfinity _ = NegInfinity"
| "jadd _ NegInfinity = NegInfinity"

definition jsub :: "jsnum \<Rightarrow> jsnum \<Rightarrow> jsnum" where
  "jsub a b = jadd a (jneg b)"

definition jsign :: "real \<Rightarrow> jsnum \<Rightarrow> jsnum" where
  \<comment> \<open>the infinity \<open>i\<close> with its sign multiplied by the sign of a non-zero \<open>a\<close>\<close>
  "jsign a i = (if a > 0 then i else jneg i)"

fun jmul :: "jsnum \<Rightarrow> jsnum \<Rightarrow> jsnum" where
  "jmul NaN _ = NaN"
| "jmul _ NaN = NaN"
| "jmul (Finite a) (Finite b) = Finite (a * b)"
| "jmul (Finite a) i = (if a = 0 then NaN else jsign a i)"
| "jmul i (Finite b) = (if b = 0 then NaN else jsign b i)"
| "jmul PosInfinity i = i"
| "jmul NegInfinity i = jneg i"

fun jdiv :: "jsnum \<Rightarrow> jsnum \<Rightarrow> jsnum" where
  "jdiv NaN _ = NaN"
| "jdiv _ NaN = NaN"
| "jdiv (Finite a) (Finite b) =
     (if b \<noteq> 0 then Finite (a / b)
      else if a = 0 then NaN
      else if a > 0 then PosInfinity else NegInfinity)"
| "jdiv (Finite a) _ = Finite 0"
| "jdiv i (Finite b) = (if b \<ge> 0 then i else jneg i)"
| "jdiv _ _ = NaN"

definition is_integral :: "real \<Rightarrow> bool" where
  "is_integral y = (y = of_int \<lfloor>y\<rfloor>)"

definition math_pow :: "jsnum \<Rightarrow> real \<Rightarrow> jsnum" where
  \<comment> \<open>\<open>Math.pow(b, y)\<close> for a finite exponent \<open>y\<close>\<close>
  "math_pow b y =
     (if y = 0 then Finite 1
      else case b of
        NaN \<Rightarrow> NaN
      | PosInfinity \<Rightarrow> (if y > 0 then PosInfinity else Finite 0)
      | NegInfinity \<Rightarrow>
          (if y > 0 then (if is_integral y \<and> odd \<lfloor>y\<rfloor> then NegInfinity else PosInfinity)
           else Finite 0)
      | Finite x \<Rightarrow>
          (if x > 0 then Finite (x powr y)
           else if x = 0 then (if y > 0 then Finite 0 else PosInfinity)
           else if is_integral y then Finite (x powi \<lfloor>y\<rfloor>)
           else NaN))"

definition math_round :: "real \<Rightarrow> real" where
  \<comment> \<open>\<open>Math.round\<close> on a finite number: the nearest integer, a tie going up\<close>
  "math_round x = of_int \<lfloor>x + 1 / 2\<rfloor>"

fun jround :: "jsnum \<Rightarrow> jsnum" where
  "jround (Finite x) = Finite (math_round x)"
| "jround i = i"

definition or_default :: "real option \<Rightarrow> real \<Rightarrow> real" where
  \<comment> \<open>\<open>x || d\<close> on an optional number: \<open>undefined\<close> and \<open>0\<close> are both falsy\<close>
  "or_default x d = (case x of None \<Rightarrow> d | Some v \<Rightarrow> if v = 0 then d else v)"


section \<open>The brewing recipe calculator\<close>

subsection \<open>Types\<close>

record Fermentable =
  id :: string
  name :: string
  weightLb :: real
  ppg :: real
  lovibond :: real

datatype hop_type = Boil | Whirlpool | Dry

record HopAddition =
  id :: string
  name :: string
  weightOz :: real
  alphaAcid :: real
  timeMin :: real
  type :: hop_type
  whirlpoolTempF :: "real option"

record WaterProfile =
  ca :: real
  mg :: real
  na :: real
  cl :: real
  so4 :: real
  hco3 :: real

record SaltAdditions =
  gypsum :: real
  cacl2 :: real
  epsom :: real
  salt :: real
  bakingSoda :: real
  chalk :: real

record KegConfig =
  tempF :: real
  co2Vol :: real
  lineResistance :: real
  heightRiseFt :: real

text \<open>
  Of \<open>RecipeContext\<close> the fields that the calculations below read; the yeast profile and
  the fermentation steps feed other displays.
\<close>

record RecipeContext =
  batchSizeGal :: real
  efficiency :: real
  grainBill :: "Fermentable list"
  hopSchedule :: "HopAddition list"
  measuredOG :: "real option"
  measuredFG :: "real option"
  sourceWater :: WaterProfile
  salts :: SaltAdditions
  kegConfig :: KegConfig

record GravityResult =
  og :: real
  points :: real

subsection \<open>Defaults\<close>

definition DEFAULT_grainBill :: "Fermentable list" where
  "DEFAULT_grainBill =
     [\<lparr>Fermentable.id = ''1'', name = ''2-Row'', weightLb = 10, ppg = 37, lovibond = 1.8\<rparr>,
      \<lparr>Fermentable.id = ''2'', name = ''Crystal 40'', weightLb = 0.5, ppg = 34, lovibond = 40\<rparr>]"

definition DEFAULT_hopSchedule :: "HopAddition list" where
  "DEFAULT_hopSchedule =
     [\<lparr>HopAddition.id = ''1'', name = ''Citra'', weightOz = 1, alphaAcid = 12, timeMin = 60,
        type = Boil, whirlpoolTempF = None\<rparr>,
      \<lparr>HopAddition.id = ''2'', name = ''Mosaic'', weightOz = 2, alphaAcid = 11.5, timeMin = 0,
        type = Whirlpool, whirlpoolTempF = Some 170\<rparr>]"

text \<open>A dry-hop addition as \<open>addHop\<close> and the type selector of the hop table make one.\<close>

definition dryHopExample :: HopAddition where
  "dryHopExample =
     \<lparr>HopAddition.id = ''3'', name = ''New Hop'', weightOz = 1, alphaAcid = 10, timeMin = 60,
      type = Dry, whirlpoolTempF = None\<rparr>"

definition DEFAULT_RECIPE :: RecipeContext where
  "DEFAULT_RECIPE =
     \<lparr>batchSizeGal = 5.5, efficiency = 72,
      grainBill = DEFAULT_grainBill, hopSchedule = DEFAULT_hopSchedule,
      measuredOG = None, measuredFG = None,
      sourceWater = \<lparr>ca = 5, mg = 2, na = 8, cl = 10, so4 = 10, hco3 = 15\<rparr>,
      salts = \<lparr>gypsum = 0, cacl2 = 0, epsom = 0, salt = 0, bakingSoda = 0, chalk = 0\<rparr>,
      kegConfig = \<lparr>tempF = 38, co2Vol = 2.4, lineResistance = 2.2, heightRiseFt = 1\<rparr>\<rparr>"

subsection \<open>Math helper functions\<close>

definition calculateGravity :: "Fermentable list \<Rightarrow> real \<Rightarrow> real \<Rightarrow> GravityResult" where
  "calculateGravity grains eff volume =
     (let totalPoints = foldl (\<lambda>acc grain. acc + weightLb grain * ppg grain) 0 grains;
          potentialPoints = totalPoints * (eff / 100);
          pointsPerGal = (if volume > 0 then potentialPoints / volume else 0)
      in \<lparr>og = 1 + pointsPerGal / 1000, points = pointsPerGal\<rparr>)"

definition calculateABV :: "real \<Rightarrow> real \<Rightarrow> real" where
  "calculateABV ogv fgv = (ogv - fgv) * 131.25"

definition hopIBU :: "real \<Rightarrow> real \<Rightarrow> HopAddition \<Rightarrow> jsnum" where
  \<comment> \<open>the body of the \<open>forEach\<close> callback of \<open>calculateIBU\<close>, past the dry-hop return\<close>
  "hopIBU ogv volume hop =
     (let bignessFactor = 1.65 * (0.000125 powr (ogv - 1));
          boilTimeFactor = (1 - exp (- 0.04 * timeMin hop)) / 4.15;
          utilization =
            (if type hop = Whirlpool
             then let temp = or_default (whirlpoolTempF hop) 200;
                      tempFactor = (if temp > 180 then 0.5 else if temp > 160 then 0.2 else 0.05)
                  in bignessFactor * ((1 - exp (- 0.04 * 20)) / 4.15) * tempFactor
             else bignessFactor * boilTimeFactor);
          alphaAcidUnits = alphaAcid hop * weightOz hop
      in jdiv (Finite (alphaAcidUnits * utilization * 74.9)) (Finite volume))"

definition calculateIBU :: "HopAddition list \<Rightarrow> real \<Rightarrow> real \<Rightarrow> jsnum" where
  "calculateIBU hops ogv volume =
     foldl (\<lambda>totalIBU hop. if type hop = Dry then totalIBU
                            else jadd totalIBU (hopIBU ogv volume hop))
       (Finite 0) hops"

definition calculateSRM :: "Fermentable list \<Rightarrow> real \<Rightarrow> jsnum" where
  "calculateSRM grains volume =
     (let mcu = jdiv (Finite (foldl (\<lambda>acc g. acc + weightLb g * lovibond g) 0 grains))
                  (Finite volume)
      in jmul (Finite 1.4922) (math_pow mcu 0.6859))"

definition calculateWaterChemistry :: "WaterProfile \<Rightarrow> SaltAdditions \<Rightarrow> real \<Rightarrow> WaterProfile" where
  "calculateWaterChemistry source slt totalWaterGal =
     (if totalWaterGal \<le> 0 then source
      else let ppm = (\<lambda>val grams. (val * grams) / totalWaterGal)
           in \<lparr>ca = ca source + ppm 60 (gypsum slt) + ppm 72 (cacl2 slt) + ppm 105 (chalk slt),
               mg = mg source + ppm 24 (epsom slt),
               na = na source + ppm 104 (salt slt) + ppm 72 (bakingSoda slt),
               cl = cl source + ppm 128 (cacl2 slt) + ppm 160 (salt slt),
               so4 = so4 source + ppm 147 (gypsum slt) + ppm 98 (epsom slt),
               hco3 = hco3 source + ppm 184 (bakingSoda slt) + ppm 158 (chalk slt)\<rparr>)"

subsection \<open>Core calculations of the BrewMaster component\<close>

definition recipe_gravity :: "RecipeContext \<Rightarrow> GravityResult" where
  "recipe_gravity recipe =
     calculateGravity (grainBill recipe) (efficiency recipe) (batchSizeGal recipe)"

definition recipe_fg :: "RecipeContext \<Rightarrow> real" where
  "recipe_fg recipe =
     or_default (measuredFG recipe) (1 + (og (recipe_gravity recipe) - 1) * 0.25)"

definition recipe_abv :: "RecipeContext \<Rightarrow> real" where
  "recipe_abv recipe = calculateABV (og (recipe_gravity recipe)) (recipe_fg recipe)"

definition recipe_ibu :: "RecipeContext \<Rightarrow> jsnum" where
  "recipe_ibu recipe =
     calculateIBU (hopSchedule recipe) (og (recipe_gravity recipe)) (batchSizeGal recipe)"

definition recipe_srm :: "RecipeContext \<Rightarrow> jsnum" where
  "recipe_srm recipe = calculateSRM (grainBill recipe) (batchSizeGal recipe)"

definition servingPSI :: "KegConfig \<Rightarrow> real" where
  "servingPSI keg =
     max 0 (- 16.6999 - 0.0101059 * tempF keg + 0.00116512 * (tempF keg)\<^sup>2
            + 0.173354 * tempF keg * co2Vol keg + 4.24267 * co2Vol keg
            - 0.0684226 * (co2Vol keg)\<^sup>2)"


section \<open>The tap list: colour swatches\<close>

fun jle :: "jsnum \<Rightarrow> jsnum \<Rightarrow> bool" where
  "jle NaN _ = False"
| "jle _ NaN = False"
| "jle (Finite a) (Finite b) = (a \<le> b)"
| "jle NegInfinity _ = True"
| "jle _ PosInfinity = True"
| "jle _ _ = False"

fun jlt :: "jsnum \<Rightarrow> jsnum \<Rightarrow> bool" where
  "jlt NaN _ = False"
| "jlt _ NaN = False"
| "jlt (Finite a) (Finite b) = (a < b)"
| "jlt PosInfinity _ = False"
| "jlt _ NegInfinity = False"
| "jlt _ _ = True"

definition jgt :: "jsnum \<Rightarrow> jsnum \<Rightarrow> bool" where
  "jgt a b = jlt b a"

definition srmToColor :: "jsnum \<Rightarrow> string" where
  "srmToColor srm =
     (if jle srm (Finite 2) then ''#F8F753''
      else if jle srm (Finite 3) then ''#F6F513''
      else if jle srm (Finite 4) then ''#ECE61A''
      else if jle srm (Finite 6) then ''#D5BC26''
      else if jle srm (Finite 9) then ''#BF923B''
      else if jle srm (Finite 12) then ''#BF813A''
      else if jle srm (Finite 15) then ''#BC6733''
      else if jle srm (Finite 20) then ''#8D4C32''
      else if jle srm (Finite 24) then ''#5D341A''
      else if jle srm (Finite 30) then ''#261716''
      else if jgt srm (Finite 30) then ''#030403''
      else ''#F8F753'')"

text \<open>
  The swatches in the order of the branches that return them, and the position of a
  swatch in that order (the band index; 11 for a string that is no swatch).
\<close>

definition swatches :: "string list" where
  "swatches = [''#F8F753'', ''#F6F513'', ''#ECE61A'', ''#D5BC26'', ''#BF923B'', ''#BF813A'',
               ''#BC6733'', ''#8D4C32'', ''#5D341A'', ''#261716'', ''#030403'']"

fun index_of :: "string \<Rightarrow> string list \<Rightarrow> nat" where
  "index_of c [] = 0"
| "index_of c (x # xs) = (if c = x then 0 else Suc (index_of c xs))"

definition band :: "jsnum \<Rightarrow> nat" where
  "band srm = index_of (srmToColor srm) swatches"


section \<open>The pizza dough calculator\<close>

subsection \<open>Styles\<close>

text \<open>
  A \<open>DoughStyle\<close> with its nested objects flattened (\<open>hydration.min\<close> is
  \<open>hydration_min\<close>, \<open>fermentation.roomMin\<close> is \<open>roomMin\<close>); the \<open>bake\<close> strings are
  display text and are left out.
\<close>

record DoughStyle =
  id :: string
  name :: string
  tf :: real
  hydration_min :: real
  hydration_max :: real
  hydration_default :: real
  salt_default :: real
  oil_default :: real
  sugar_default :: real
  yeast_default :: real
  roomMin :: real
  roomMax :: real
  roomDefault :: real
  coldMin :: real
  coldMax :: real
  coldDefault :: real
  ballingTime :: real

definition style_thin :: DoughStyle where
  "style_thin = \<lparr>DoughStyle.id = ''thin'', name = ''Thin Crust (Bar Style)'', tf = 0.07,
     hydration_min = 50, hydration_max = 60, hydration_default = 56,
     salt_default = 2.0, oil_default = 2.0, sugar_default = 1.0, yeast_default = 0.4,
     roomMin = 2, roomMax = 24, roomDefault = 4, coldMin = 0, coldMax = 48, coldDefault = 24,
     ballingTime = 2\<rparr>"

definition style_ny_street :: DoughStyle where
  "style_ny_street = \<lparr>DoughStyle.id = ''ny_street'', name = ''NY Street'', tf = 0.085,
     hydration_min = 58, hydration_max = 65, hydration_default = 62,
     salt_default = 2.5, oil_default = 1.5, sugar_default = 2.0, yeast_default = 0.5,
     roomMin = 2, roomMax = 6, roomDefault = 3, coldMin = 24, coldMax = 72, coldDefault = 48,
     ballingTime = 4\<rparr>"

definition style_medium :: DoughStyle where
  "style_medium = \<lparr>DoughStyle.id = ''medium'', name = ''Takeout Pizza'', tf = 0.10,
     hydration_min = 60, hydration_max = 65, hydration_default = 62,
     salt_default = 2.0, oil_default = 3.0, sugar_default = 2.0, yeast_default = 0.5,
     roomMin = 2, roomMax = 8, roomDefault = 3, coldMin = 0, coldMax = 48, coldDefault = 24,
     ballingTime = 2\<rparr>"

definition style_neapolitan :: DoughStyle where
  "style_neapolitan = \<lparr>DoughStyle.id = ''neapolitan'', name = ''Neapolitan'', tf = 0.075,
     hydration_min = 60, hydration_max = 75, hydration_default = 65,
     salt_default = 3.0, oil_default = 0, sugar_default = 0, yeast_default = 0.2,
     roomMin = 8, roomMax = 24, roomDefault = 12, coldMin = 0, coldMax = 72, coldDefault = 24,
     ballingTime = 6\<rparr>"

definition style_detroit :: DoughStyle where
  "style_detroit = \<lparr>DoughStyle.id = ''detroit'', name = ''Detroit / Sicilian'', tf = 0.13,
     hydration_min = 65, hydration_max = 75, hydration_default = 70,
     salt_default = 2.5, oil_default = 1.0, sugar_default = 1.0, yeast_default = 0.6,
     roomMin = 2, roomMax = 6, roomDefault = 4, coldMin = 12, coldMax = 48, coldDefault = 24,
     ballingTime = 0\<rparr>"

definition STYLES :: "string \<rightharpoonup> DoughStyle" where
  "STYLES = [''thin'' \<mapsto> style_thin, ''ny_street'' \<mapsto> style_ny_street,
             ''medium'' \<mapsto> style_medium, ''neapolitan'' \<mapsto> style_neapolitan,
             ''detroit'' \<mapsto> style_detroit]"

subsection \<open>Component state and effects\<close>

record PizzaState =
  selectedStyleId :: string
  diameter :: real
  count :: real
  roomTempHours :: real
  coldFermentHours :: real
  customMode :: bool
  hydration :: real
  salt :: real
  oil :: real
  sugar :: real
  yeast :: real

definition initialState :: PizzaState where
  "initialState = \<lparr>selectedStyleId = ''ny_street'', diameter = 16, count = 2,
     roomTempHours = 3, coldFermentHours = 48, customMode = False,
     hydration = 62, salt = 2.5, oil = 1.5, sugar = 2.0, yeast = 0.5\<rparr>"

datatype js_error = TypeError

text \<open>
  An effect reads the state of the render it belongs to and returns the state with its
  setter calls applied. Reading a property of \<open>STYLES[selectedStyleId]\<close> for an id that
  is no key of \<open>STYLES\<close> throws.
\<close>

definition effectStyleDefaults :: "PizzaState \<Rightarrow> js_error + PizzaState" where
  "effectStyleDefaults st =
     (if \<not> customMode st then
        (case STYLES (selectedStyleId st) of
           None \<Rightarrow> Inl TypeError
         | Some style \<Rightarrow>
             Inr (st\<lparr>hydration := hydration_default style,
                      salt := salt_default style,
                      oil := oil_default style,
                      sugar := sugar_default style,
                      yeast := yeast_default style,
                      roomTempHours := roomDefault style,
                      coldFermentHours := coldDefault style\<rparr>))
      else Inr st)"

definition autoHydration :: "DoughStyle \<Rightarrow> real \<Rightarrow> real \<Rightarrow> real" where
  \<comment> \<open>the value that the auto-adjust effect passes to \<open>setHydration\<close>\<close>
  "autoHydration style coldHours roomHours =
     (let calcHydration = hydration_default style;
          coldDiff = max 0 (coldHours - coldMin style);
          calcHydration = calcHydration + (coldDiff / 12) * 0.5;
          roomDiff = max 0 (roomHours - roomMin style);
          calcHydration = calcHydration + roomDiff * 0.25;
          calcHydration = min (hydration_max style) (max (hydration_min style) calcHydration)
      in math_round (calcHydration * 10) / 10)"

definition effectAutoHydration :: "PizzaState \<Rightarrow> js_error + PizzaState" where
  "effectAutoHydration st =
     (if customMode st then Inr st
      else case STYLES (selectedStyleId st) of
             None \<Rightarrow> Inl TypeError
           | Some style \<Rightarrow>
               Inr (st\<lparr>hydration :=
                         autoHydration style (coldFermentHours st) (roomTempHours st)\<rparr>))"

text \<open>
  The dependency list of the auto-adjust effect: after a render the effect runs when one
  of these differs from the render before.
\<close>

definition autoHydrationDeps :: "PizzaState \<Rightarrow> real \<times> real \<times> string \<times> bool" where
  "autoHydrationDeps st =
     (roomTempHours st, coldFermentHours st, selectedStyleId st, customMode st)"

definition runAutoHydration :: "PizzaState \<Rightarrow> PizzaState \<Rightarrow> js_error + PizzaState" where
  "runAutoHydration prev st =
     (if autoHydrationDeps prev = autoHydrationDeps st then Inr st
      else effectAutoHydration st)"

subsection \<open>Dough weight and baker's math\<close>

record Ingredients =
  flour :: jsnum
  water :: jsnum
  salt :: jsnum
  oil :: jsnum
  sugar :: jsnum
  yeast :: jsnum

definition totalDoughWeightG :: "DoughStyle \<Rightarrow> PizzaState \<Rightarrow> real" where
  "totalDoughWeightG style st =
     (let radius = diameter st / 2;
          area = pi * radius\<^sup>2;
          singleDoughWeightOz = area * tf style;
          singleDoughWeightG = singleDoughWeightOz * 28.3495
      in singleDoughWeightG * count st)"

definition totalPercent :: "PizzaState \<Rightarrow> real" where
  "totalPercent st =
     100 + hydration st + PizzaState.salt st + PizzaState.oil st + PizzaState.sugar st
       + PizzaState.yeast st"

definition flourG :: "DoughStyle \<Rightarrow> PizzaState \<Rightarrow> jsnum" where
  "flourG style st = jdiv (Finite (totalDoughWeightG style st)) (Finite (totalPercent st / 100))"

definition ingredients :: "DoughStyle \<Rightarrow> PizzaState \<Rightarrow> Ingredients" where
  "ingredients style st =
     \<lparr>flour = jround (flourG style st),
      water = jround (jmul (flourG style st) (Finite (hydration st / 100))),
      salt = jround (jmul (flourG style st) (Finite (PizzaState.salt st / 100))),
      oil = jround (jmul (flourG style st) (Finite (PizzaState.oil st / 100))),
      sugar = jround (jmul (flourG style st) (Finite (PizzaState.sugar st / 100))),
      yeast = jdiv (jround (jmul (jmul (flourG style st) (Finite (PizzaState.yeast st / 100)))
                              (Finite 10)))
                (Finite 10)\<rparr>"

subsection \<open>Timeline\<close>

text \<open>
  A \<open>Date\<close> holds a time value: a whole number of milliseconds since the epoch, or NaN
  (an invalid date). \<open>new Date(v)\<close> on a number clips it: a value that is not finite or
  lies more than 8.64e15 ms from the epoch makes the date invalid, any other is
  truncated towards zero.
\<close>

datatype Date = ValidDate int | InvalidDate

definition trunc :: "real \<Rightarrow> int" where
  "trunc x = (if x \<ge> 0 then \<lfloor>x\<rfloor> else \<lceil>x\<rceil>)"

definition newDate :: "jsnum \<Rightarrow> Date" where
  "newDate v =
     (case v of
        Finite x \<Rightarrow> if \<bar>x\<bar> \<le> 8640000000000000 then ValidDate (trunc x) else InvalidDate
      | _ \<Rightarrow> InvalidDate)"

definition getTime :: "Date \<Rightarrow> jsnum" where
  "getTime d = (case d of ValidDate t \<Rightarrow> Finite (of_int t) | InvalidDate \<Rightarrow> NaN)"

definition ballDate :: "Date \<Rightarrow> DoughStyle \<Rightarrow> Date" where
  "ballDate bakeDate style =
     newDate (jsub (getTime bakeDate) (Finite (ballingTime style * 60 * 60 * 1000)))"

definition coldStartDate :: "Date \<Rightarrow> DoughStyle \<Rightarrow> PizzaState \<Rightarrow> Date" where
  "coldStartDate bakeDate style st =
     newDate (jsub (getTime (ballDate bakeDate style))
                   (Finite (coldFermentHours st * 60 * 60 * 1000)))"

definition startMixDate :: "Date \<Rightarrow> DoughStyle \<Rightarrow> PizzaState \<Rightarrow> Date" where
  "startMixDate bakeDate style st =
     newDate (jsub (getTime (coldStartDate bakeDate style st))
                   (Finite (roomTempHours st * 60 * 60 * 1000)))"


section \<open>Reference formulas\<close>

text \<open>
  The formulas that the properties below compare the code with, written independently
  of it.
\<close>

definition thresholds :: "real list" where
  "thresholds = [2, 3, 4, 6, 9, 12, 15, 20, 24, 30]"

definition tempFactorAt :: "real \<Rightarrow> real" where
  "tempFactorAt temp = (if temp > 180 then 0.5 else if temp > 160 then 0.2 else 0.05)"

definition utilizationAt :: "real \<Rightarrow> real \<Rightarrow> real" where
  \<comment> \<open>bigness factor times the time factor of \<open>t\<close> minutes\<close>
  "utilizationAt ogv t = 1.65 * 0.000125 powr (ogv - 1) * ((1 - exp (- 0.04 * t)) / 4.15)"

definition tinsethContribution :: "real \<Rightarrow> real \<Rightarrow> real \<Rightarrow> HopAddition \<Rightarrow> real" where
  \<comment> \<open>the bitterness of one addition whose whirlpool temperature is taken to be \<open>temp\<close>\<close>
  "tinsethContribution temp ogv v hop =
     (case type hop of
        Dry \<Rightarrow> 0
      | Boil \<Rightarrow> alphaAcid hop * weightOz hop * utilizationAt ogv (timeMin hop) * 74.9 / v
      | Whirlpool \<Rightarrow>
          alphaAcid hop * weightOz hop * (utilizationAt ogv 20 * tempFactorAt temp) * 74.9 / v)"


definition is_rounded :: "real \<Rightarrow> real \<Rightarrow> jsnum \<Rightarrow> bool" where
  \<comment> \<open>\<open>j\<close> is a finite multiple of \<open>step\<close> that is nearest to \<open>x\<close>\<close>
  "is_rounded step x j =
     (case j of Finite r \<Rightarrow> is_integral (r / step) \<and> \<bar>r - x\<bar> \<le> step / 2 | _ \<Rightarrow> False)"

section \<open>Properties\<close>

subsection \<open>Helper lemmas\<close>

lemma foldl_add_sum_list:
  "foldl (\<lambda>acc x. acc + f x) a xs = a + sum_list (map f xs)"
  by (induction xs arbitrary: a) (simp_all add: add.assoc)

lemma math_round_close: "\<bar>math_round x - x\<bar> \<le> 1 / 2"
proof -
  have "of_int \<lfloor>x + 1 / 2\<rfloor> \<le> x + 1 / 2" and "x + 1 / 2 < of_int \<lfloor>x + 1 / 2\<rfloor> + 1"
    by linarith+
  then show ?thesis unfolding math_round_def by linarith
qed

lemma math_round_nearest: "is_rounded 1 x (Finite (math_round x))"
  using math_round_close [of x]
  by (simp add: is_rounded_def is_integral_def) (simp add: math_round_def)

lemma math_round_tenth: "is_rounded (1 / 10) x (Finite (math_round (x * 10) / 10))"
proof -
  have "\<bar>math_round (x * 10) - x * 10\<bar> \<le> 1 / 2"
    by (rule math_round_close)
  then have "\<bar>math_round (x * 10) / 10 - x\<bar> \<le> 1 / 10 / 2"
    by linarith
  moreover have "is_integral (math_round (x * 10) / 10 / (1 / 10))"
    by (simp add: is_integral_def math_round_def)
  ultimately show ?thesis
    by (simp only: is_rounded_def jsnum.case)
qed

lemma jround_mul:
  "jround (jmul (Finite a) (Finite b)) = Finite (math_round (a * b))"
  by simp

subsection \<open>Gravity\<close>

text \<open>
  C2. For every list of fermentables, efficiency \<open>e\<close> and batch volume \<open>v\<close>,
  \<open>calculateGravity\<close> returns as points per gallon the sum of weight times ppg over the
  fermentables, times \<open>e / 100\<close>, divided by \<open>v\<close> when \<open>v > 0\<close>, and 0 when \<open>v \<le> 0\<close>;
  the original gravity is 1 plus the points per gallon over 1000 in both cases.
\<close>

theorem calculateGravity_formula:
  "points (calculateGravity grains e v) =
     (if v > 0 then (\<Sum>g\<leftarrow>grains. weightLb g * ppg g) * (e / 100) / v else 0)
   \<and> og (calculateGravity grains e v) = 1 + points (calculateGravity grains e v) / 1000"
  by (simp add: calculateGravity_def Let_def foldl_add_sum_list)

theorem calculateGravity_formula_witness:
  "points (calculateGravity DEFAULT_grainBill 72 5.5) = 387 * (72 / 100) / 5.5
   \<and> points (calculateGravity DEFAULT_grainBill 72 0) = 0
   \<and> og (calculateGravity DEFAULT_grainBill 72 0) = 1"
  using calculateGravity_formula [of DEFAULT_grainBill 72 "5.5"]
        calculateGravity_formula [of DEFAULT_grainBill 72 0]
  by (simp add: DEFAULT_grainBill_def)

text \<open>
  C10. For every recipe without a measured final gravity, the final gravity is the
  estimate \<open>1 + (og - 1) * 0.25\<close>, where \<open>og\<close> is the original gravity that
  \<open>calculateGravity\<close> returns for the recipe, and the ABV is \<open>calculateABV\<close> of \<open>og\<close>
  and this estimate.
\<close>

theorem estimated_fg:
  "measuredFG recipe = None \<Longrightarrow>
     recipe_gravity recipe
       = calculateGravity (grainBill recipe) (efficiency recipe) (batchSizeGal recipe)
   \<and> recipe_fg recipe = 1 + (og (recipe_gravity recipe) - 1) * 0.25
   \<and> recipe_abv recipe
       = calculateABV (og (recipe_gravity recipe)) (1 + (og (recipe_gravity recipe) - 1) * 0.25)"
  by (simp add: recipe_fg_def recipe_abv_def recipe_gravity_def or_default_def)

theorem estimated_fg_witness:
  "measuredFG DEFAULT_RECIPE = None
   \<and> og (recipe_gravity DEFAULT_RECIPE) = 1 + 387 * (72 / 100) / 5.5 / 1000
   \<and> recipe_fg DEFAULT_RECIPE = 1 + (387 * (72 / 100) / 5.5 / 1000) * 0.25
   \<and> recipe_abv DEFAULT_RECIPE = (387 * (72 / 100) / 5.5 / 1000) * 0.75 * 131.25"
  using estimated_fg [of DEFAULT_RECIPE]
  by (simp add: DEFAULT_RECIPE_def DEFAULT_grainBill_def calculateGravity_def calculateABV_def
      recipe_gravity_def)

subsection \<open>Degenerate volumes\<close>

text \<open>
  C1. The claim is that every engine returns its sentinel (zero, or the input unchanged)
  on a degenerate input, and in particular that \<open>calculateSRM\<close> and \<open>calculateIBU\<close> return
  zero at batch volume 0. On the default recipe with the batch size set to 0 both return
  Infinity, and the colour of an empty grain bill at volume 0 is NaN: neither function
  guards its division, as \<open>calculateGravity\<close> and \<open>calculateWaterChemistry\<close> do.
\<close>

theorem zero_volume_not_zero:
  "recipe_srm (DEFAULT_RECIPE\<lparr>batchSizeGal := 0\<rparr>) = PosInfinity
   \<and> recipe_ibu (DEFAULT_RECIPE\<lparr>batchSizeGal := 0\<rparr>) = PosInfinity
   \<and> calculateSRM [] 0 = NaN"
  by (simp add: recipe_srm_def recipe_ibu_def recipe_gravity_def calculateGravity_def
      DEFAULT_RECIPE_def DEFAULT_grainBill_def DEFAULT_hopSchedule_def
      calculateSRM_def calculateIBU_def hopIBU_def math_pow_def jsign_def or_default_def Let_def)

text \<open>
  At volume 0 the colour is never a finite number, whatever the grain bill; the
  bitterness of an empty schedule is 0, no division taking place.
\<close>

lemma calculateSRM_zero_volume:
  "calculateSRM grains 0 = PosInfinity \<or> calculateSRM grains 0 = NaN"
  by (simp add: calculateSRM_def math_pow_def is_integral_def jsign_def Let_def)

lemma calculateIBU_empty: "calculateIBU [] g v = Finite 0"
  by (simp add: calculateIBU_def)

subsection \<open>Water chemistry\<close>

text \<open>
  C4. For every source profile, salt masses and water volume \<open>v\<close>, the result of
  \<open>calculateWaterChemistry\<close> is the source profile when \<open>v \<le> 0\<close>, and otherwise each ion
  is the source's plus (constant times grams) over \<open>v\<close> for the salts that carry it, with
  the constants gypsum Ca 60, SO4 147; calcium chloride Ca 72, Cl 128; Epsom Mg 24,
  SO4 98; table salt Na 104, Cl 160; baking soda Na 72, HCO3 184; chalk Ca 105,
  HCO3 158. Doubling every salt mass at a fixed volume doubles what each ion gains over
  the source.
\<close>

theorem calculateWaterChemistry_formula:
  "calculateWaterChemistry source s v =
     (if v \<le> 0 then source
      else \<lparr>ca = ca source + 60 * gypsum s / v + 72 * cacl2 s / v + 105 * chalk s / v,
            mg = mg source + 24 * epsom s / v,
            na = na source + 104 * SaltAdditions.salt s / v + 72 * bakingSoda s / v,
            cl = cl source + 128 * cacl2 s / v + 160 * SaltAdditions.salt s / v,
            so4 = so4 source + 147 * gypsum s / v + 98 * epsom s / v,
            hco3 = hco3 source + 184 * bakingSoda s / v + 158 * chalk s / v\<rparr>)
   \<and> (let s2 = \<lparr>gypsum = 2 * gypsum s, cacl2 = 2 * cacl2 s, epsom = 2 * epsom s,
                  salt = 2 * SaltAdditions.salt s, bakingSoda = 2 * bakingSoda s,
                  chalk = 2 * chalk s\<rparr>;
            r = calculateWaterChemistry source s v;
            r2 = calculateWaterChemistry source s2 v
        in ca r2 - ca source = 2 * (ca r - ca source)
         \<and> mg r2 - mg source = 2 * (mg r - mg source)
         \<and> na r2 - na source = 2 * (na r - na source)
         \<and> cl r2 - cl source = 2 * (cl r - cl source)
         \<and> so4 r2 - so4 source = 2 * (so4 r - so4 source)
         \<and> hco3 r2 - hco3 source = 2 * (hco3 r - hco3 source))"
  by (simp add: calculateWaterChemistry_def Let_def add_divide_distrib)


subsection \<open>Bitterness\<close>

lemma hopIBU_finite:
  assumes "v \<noteq> 0" and "type hop \<noteq> Dry"
  shows "hopIBU g v hop = Finite (tinsethContribution (or_default (whirlpoolTempF hop) 200) g v hop)"
  using assms
  by (cases "type hop")
     (simp_all add: hopIBU_def tinsethContribution_def utilizationAt_def tempFactorAt_def Let_def)

lemma calculateIBU_foldl:
  assumes "v \<noteq> 0"
  shows "foldl (\<lambda>totalIBU hop. if type hop = Dry then totalIBU
                                 else jadd totalIBU (hopIBU g v hop)) (Finite a) hops
       = Finite (a + (\<Sum>h\<leftarrow>hops. tinsethContribution (or_default (whirlpoolTempF h) 200) g v h))"
proof (induction hops arbitrary: a)
  case Nil
  show ?case by simp
next
  case (Cons h hs)
  show ?case
  proof (cases "type h = Dry")
    case True
    then show ?thesis by (simp add: Cons.IH tinsethContribution_def)
  next
    case False
    then show ?thesis by (simp add: Cons.IH hopIBU_finite [OF assms] add.assoc)
  qed
qed

text \<open>
  The program records a whirlpool temperature of 170 (the default recipe) or none at all
  (an addition made in the form), never 0. On such a temperature \<open>x || 200\<close> is the
  temperature when one is recorded and 200 when none is.
\<close>

lemma or_default_recorded:
  "t \<noteq> Some 0 \<Longrightarrow> or_default t d = (case t of None \<Rightarrow> d | Some x \<Rightarrow> x)"
  by (cases t) (simp_all add: or_default_def)

text \<open>
  C3. For every hop schedule (no addition with a whirlpool temperature recorded as 0),
  original gravity and volume \<open>v > 0\<close>, the total is the sum over the additions of: 0 for
  a dry-hop addition, whatever its other fields; otherwise alpha times ounces times
  utilization times 74.9 over \<open>v\<close>, the utilization being \<open>1.65 * 0.000125 ^ (og - 1)\<close>
  times \<open>(1 - exp (-0.04 t)) / 4.15\<close>, with \<open>t\<close> the recorded minutes of a boil addition
  and 20 for a whirlpool addition, whose recorded time is ignored and whose utilization
  is scaled by 0.5 above 180 F, 0.2 above 160 F and 0.05 otherwise, the temperature
  being 200 F when none is recorded.
\<close>

theorem calculateIBU_sum:
  assumes "0 < v" and "\<forall>h\<in>set hops. whirlpoolTempF h \<noteq> Some 0"
  shows "calculateIBU hops g v
     = Finite (\<Sum>h\<leftarrow>hops. tinsethContribution
                 (case whirlpoolTempF h of None \<Rightarrow> 200 | Some t \<Rightarrow> t) g v h)"
proof -
  have eq: "map (\<lambda>h. tinsethContribution (or_default (whirlpoolTempF h) 200) g v h) hops
      = map (\<lambda>h. tinsethContribution
                 (case whirlpoolTempF h of None \<Rightarrow> 200 | Some t \<Rightarrow> t) g v h) hops"
    using assms(2) by (intro map_cong refl) (simp add: or_default_recorded)
  have ibu: "calculateIBU hops g v
      = Finite (\<Sum>h\<leftarrow>hops. tinsethContribution (or_default (whirlpoolTempF h) 200) g v h)"
    using assms(1) calculateIBU_foldl [of v g 0 hops] by (simp add: calculateIBU_def)
  show ?thesis unfolding ibu eq by (rule refl)
qed

theorem calculateIBU_sum_witness:
  "(0::real) < 5.5
   \<and> calculateIBU (DEFAULT_hopSchedule @ [dryHopExample]) 1.05 5.5
     = Finite (12 * 1 * (1.65 * 0.000125 powr (1.05 - 1) * ((1 - exp (- 0.04 * 60)) / 4.15))
                 * 74.9 / 5.5
               + 11.5 * 2 * (1.65 * 0.000125 powr (1.05 - 1) * ((1 - exp (- 0.04 * 20)) / 4.15)
                               * 0.2) * 74.9 / 5.5
               + 0)"
proof -
  have v: "(0::real) < 5.5" by simp
  have t: "\<forall>h\<in>set (DEFAULT_hopSchedule @ [dryHopExample]). whirlpoolTempF h \<noteq> Some 0"
    by (simp add: DEFAULT_hopSchedule_def dryHopExample_def)
  show ?thesis
    using v calculateIBU_sum [OF v t, of "1.05"]
    by (simp add: DEFAULT_hopSchedule_def dryHopExample_def tinsethContribution_def
        utilizationAt_def tempFactorAt_def)
qed

subsection \<open>Keg balance\<close>

text \<open>
  C8, as stated. At 38 F the serving pressure for 200 volumes (0, the polynomial being
  negative there) is below the one for 100 volumes: the quadratic term turns the
  polynomial down beyond its vertex.
\<close>

theorem servingPSI_not_monotone:
  "servingPSI (kegConfig DEFAULT_RECIPE\<lparr>co2Vol := 200\<rparr>)
     < servingPSI (kegConfig DEFAULT_RECIPE\<lparr>co2Vol := 100\<rparr>)"
  by (simp add: servingPSI_def DEFAULT_RECIPE_def)

lemma keg_poly_diff:
  fixes T V1 V2 k a b c :: real
  shows "(k + a * T * V2 + b * V2 - c * V2\<^sup>2) - (k + a * T * V1 + b * V1 - c * V1\<^sup>2)
       = (V2 - V1) * (a * T + b - c * (V1 + V2))"
  by (simp add: power2_eq_square algebra_simps)

text \<open>
  C8, amended. At every fixed serving temperature \<open>T\<close> the serving pressure is monotone in
  the carbonation volume up to the vertex of the polynomial: for all \<open>V1 < V2\<close> with
  \<open>0.1368452 * V2 \<le> 0.173354 * T + 4.24267\<close>, the pressure at \<open>V1\<close> is at most the
  pressure at \<open>V2\<close>, and strictly below it once the pressure at \<open>V2\<close> is positive.
\<close>

theorem servingPSI_monotone:
  assumes "V1 < V2" and "0.1368452 * V2 \<le> 0.173354 * tempF keg + 4.24267"
  shows "servingPSI (keg\<lparr>co2Vol := V1\<rparr>) \<le> servingPSI (keg\<lparr>co2Vol := V2\<rparr>)
       \<and> (0 < servingPSI (keg\<lparr>co2Vol := V2\<rparr>)
            \<longrightarrow> servingPSI (keg\<lparr>co2Vol := V1\<rparr>) < servingPSI (keg\<lparr>co2Vol := V2\<rparr>))"
proof -
  define T where "T = tempF keg"
  define q where "q = (\<lambda>V. - 16.6999 - 0.0101059 * T + 0.00116512 * T\<^sup>2 + 0.173354 * T * V
                          + 4.24267 * V - 0.0684226 * V\<^sup>2)"
  have psi: "servingPSI (keg\<lparr>co2Vol := V\<rparr>) = max 0 (q V)" for V
    by (simp add: servingPSI_def q_def T_def)
  have "0.0684226 * (V1 + V2) < 0.1368452 * V2"
    using assms(1) by simp
  then have slope: "0 < 0.173354 * T + 4.24267 - 0.0684226 * (V1 + V2)"
    using assms(2) by (simp add: T_def)
  have "q V2 - q V1 = (V2 - V1) * (0.173354 * T + 4.24267 - 0.0684226 * (V1 + V2))"
    unfolding q_def
    using keg_poly_diff [of "- 16.6999 - 0.0101059 * T + 0.00116512 * T\<^sup>2" "0.173354" T V2
        "4.24267" "0.0684226" V1]
    by simp
  moreover have "0 < (V2 - V1) * (0.173354 * T + 4.24267 - 0.0684226 * (V1 + V2))"
    using assms(1) slope by (intro mult_pos_pos) simp_all
  ultimately have "q V1 < q V2" by linarith
  then show ?thesis unfolding psi by auto
qed

theorem servingPSI_monotone_witness:
  "(2.4::real) < 2.6
   \<and> 0.1368452 * (2.6::real) \<le> 0.173354 * tempF (kegConfig DEFAULT_RECIPE) + 4.24267
   \<and> servingPSI (kegConfig DEFAULT_RECIPE\<lparr>co2Vol := 2.4\<rparr>)
       < servingPSI (kegConfig DEFAULT_RECIPE\<lparr>co2Vol := 2.6\<rparr>)"
proof -
  have pos: "0 < servingPSI (kegConfig DEFAULT_RECIPE\<lparr>co2Vol := 2.6\<rparr>)"
    by (simp add: servingPSI_def DEFAULT_RECIPE_def power2_eq_square)
  have lt: "(2.4::real) < 2.6" by simp
  have le: "0.1368452 * (2.6::real) \<le> 0.173354 * tempF (kegConfig DEFAULT_RECIPE) + 4.24267"
    by (simp add: DEFAULT_RECIPE_def)
  show ?thesis
    using lt le pos servingPSI_monotone [OF lt le] by blast
qed

subsection \<open>Colour swatches\<close>

lemma takeWhile_length_mono:
  "(\<And>t. P t \<Longrightarrow> Q t) \<Longrightarrow> length (takeWhile P xs) \<le> length (takeWhile Q xs)"
  by (induction xs) auto

lemma band_Finite: "band (Finite x) = length (takeWhile (\<lambda>t. t < x) thresholds)"
  by (simp add: band_def srmToColor_def swatches_def thresholds_def jgt_def)

lemma band_others: "band NegInfinity = 0" "band PosInfinity = 10" "band NaN = 0"
  by (simp_all add: band_def srmToColor_def swatches_def jgt_def)

lemma band_le_10: "band v \<le> 10"
proof (cases v)
  case (Finite x)
  have "length (takeWhile (\<lambda>t. t < x) thresholds) \<le> length thresholds"
    by (rule length_takeWhile_le)
  then show ?thesis by (simp add: Finite band_Finite thresholds_def)
qed (simp_all add: band_others)

lemma srmToColor_band: "srmToColor v = swatches ! band v"
  by (cases v) (simp_all add: band_def srmToColor_def swatches_def jgt_def)

text \<open>
  C9. \<open>srmToColor\<close> returns the swatch of the first threshold, in the ascending list 2,
  3, 4, 6, 9, 12, 15, 20, 24, 30, that the colour value does not exceed, and the last
  swatch when it exceeds them all; each threshold value itself maps to the swatch of its
  own branch, the swatches being pairwise distinct; and the band index is monotone: a
  smaller colour value never has a later band.
\<close>

theorem srmToColor_bands:
  "srmToColor (Finite x) = swatches ! length (takeWhile (\<lambda>t. \<not> x \<le> t) thresholds)
   \<and> map (\<lambda>t. srmToColor (Finite t)) thresholds = take 10 swatches
   \<and> distinct swatches
   \<and> (jlt v1 v2 \<longrightarrow> band v1 \<le> band v2)"
proof (intro conjI impI)
  show "srmToColor (Finite x) = swatches ! length (takeWhile (\<lambda>t. \<not> x \<le> t) thresholds)"
    by (simp add: srmToColor_band band_Finite not_le)
  show "map (\<lambda>t. srmToColor (Finite t)) thresholds = take 10 swatches"
    by (simp add: thresholds_def srmToColor_def swatches_def)
  show "distinct swatches"
    by (simp add: swatches_def)
  assume lt: "jlt v1 v2"
  show "band v1 \<le> band v2"
  proof (cases v1)
    case f1: (Finite a)
    show ?thesis
    proof (cases v2)
      case (Finite b)
      with f1 lt have "a < b" by simp
      then have "length (takeWhile (\<lambda>t. t < a) thresholds)
                   \<le> length (takeWhile (\<lambda>t. t < b) thresholds)"
        by (intro takeWhile_length_mono) simp
      then show ?thesis by (simp add: f1 Finite band_Finite)
    next
      case PosInfinity
      then show ?thesis using band_le_10 [of v1] by (simp add: band_others)
    qed (use f1 lt in simp_all)
  next
    case PosInfinity
    with lt show ?thesis by (cases v2) simp_all
  qed (use lt in \<open>simp_all add: band_others\<close>)
qed

theorem srmToColor_bands_witness:
  "jlt (Finite 2) (Finite 2.5) \<and> band (Finite 2) = 0 \<and> band (Finite 2.5) = 1
   \<and> band (Finite 2) \<le> band (Finite 2.5)"
  using srmToColor_bands [of 2 "Finite 2" "Finite 2.5"]
  by (simp add: band_def srmToColor_def swatches_def)

subsection \<open>Dough formulation\<close>

text \<open>
  C5. For every pan diameter, count, thickness factor and baker's percentages whose
  total \<open>100 + hydration + salt + oil + sugar + yeast\<close> is not zero, the total dough mass
  in grams is \<open>pi * (d / 2)\<^sup>2 * tf * 28.3495 * n\<close>, the flour mass is the total dough mass
  over (the total percentage over 100), and each displayed mass is the flour mass times
  (its percentage over 100) rounded to the nearest gram, the yeast to the nearest tenth
  of a gram.
\<close>

theorem ingredients_formula:
  assumes "totalPercent st \<noteq> 0"
  shows "(let total = pi * (diameter st / 2)\<^sup>2 * tf style * 28.3495 * count st;
              fl = total / ((100 + hydration st + PizzaState.salt st + PizzaState.oil st
                              + PizzaState.sugar st + PizzaState.yeast st) / 100);
              ing = ingredients style st
          in totalDoughWeightG style st = total
           \<and> flourG style st = Finite fl
           \<and> is_rounded 1 fl (flour ing)
           \<and> is_rounded 1 (fl * (hydration st / 100)) (water ing)
           \<and> is_rounded 1 (fl * (PizzaState.salt st / 100)) (Ingredients.salt ing)
           \<and> is_rounded 1 (fl * (PizzaState.oil st / 100)) (Ingredients.oil ing)
           \<and> is_rounded 1 (fl * (PizzaState.sugar st / 100)) (Ingredients.sugar ing)
           \<and> is_rounded (1 / 10) (fl * (PizzaState.yeast st / 100)) (Ingredients.yeast ing))"
proof -
  define fl where "fl = totalDoughWeightG style st / (totalPercent st / 100)"
  have fl: "flourG style st = Finite fl"
    using assms by (simp add: flourG_def fl_def)
  have total: "totalDoughWeightG style st
      = pi * (diameter st / 2)\<^sup>2 * tf style * 28.3495 * count st"
    by (simp add: totalDoughWeightG_def Let_def)
  have y: "Ingredients.yeast (ingredients style st)
      = Finite (math_round (fl * (PizzaState.yeast st / 100) * 10) / 10)"
    by (simp add: ingredients_def fl)
  have "is_rounded 1 fl (flour (ingredients style st))"
    by (simp only: ingredients_def fl Ingredients.simps jround.simps math_round_nearest)
  moreover have "is_rounded 1 (fl * (hydration st / 100)) (water (ingredients style st))"
    by (simp only: ingredients_def fl Ingredients.simps jround_mul math_round_nearest)
  moreover have "is_rounded 1 (fl * (PizzaState.salt st / 100))
                   (Ingredients.salt (ingredients style st))"
    by (simp only: ingredients_def fl Ingredients.simps jround_mul math_round_nearest)
  moreover have "is_rounded 1 (fl * (PizzaState.oil st / 100))
                   (Ingredients.oil (ingredients style st))"
    by (simp only: ingredients_def fl Ingredients.simps jround_mul math_round_nearest)
  moreover have "is_rounded 1 (fl * (PizzaState.sugar st / 100))
                   (Ingredients.sugar (ingredients style st))"
    by (simp only: ingredients_def fl Ingredients.simps jround_mul math_round_nearest)
  moreover have "is_rounded (1 / 10) (fl * (PizzaState.yeast st / 100))
                   (Ingredients.yeast (ingredients style st))"
    unfolding y by (rule math_round_tenth)
  ultimately show ?thesis
    unfolding Let_def total [symmetric] totalPercent_def [symmetric] fl_def [symmetric]
    using fl by simp
qed

theorem ingredients_formula_witness:
  "totalPercent initialState \<noteq> 0
   \<and> totalDoughWeightG style_ny_street initialState = pi * 8\<^sup>2 * 0.085 * 28.3495 * 2
   \<and> flourG style_ny_street initialState
       = Finite (pi * 8\<^sup>2 * 0.085 * 28.3495 * 2 / (168.5 / 100))
   \<and> is_rounded 1 (pi * 8\<^sup>2 * 0.085 * 28.3495 * 2 / (168.5 / 100) * (62 / 100))
        (water (ingredients style_ny_street initialState))"
proof -
  have h: "totalPercent initialState \<noteq> 0"
    by (simp add: totalPercent_def initialState_def)
  show ?thesis
    using h ingredients_formula [OF h, of style_ny_street]
    by (simp add: Let_def initialState_def style_ny_street_def)
qed

subsection \<open>Auto-hydration\<close>

text \<open>
  C6, as stated, at its example. With default 62, cold minimum 24, room minimum 2 (the
  NY street style), 48 cold hours and 3 room hours the effect sets the hydration to
  63.3, not to 63.25: 63.25 is the value before the rounding to one decimal place.
\<close>

theorem autoHydration_example:
  "hydration_default style_ny_street = 62 \<and> coldMin style_ny_street = 24
   \<and> roomMin style_ny_street = 2
   \<and> autoHydration style_ny_street 48 3 = 63.3
   \<and> autoHydration style_ny_street 48 3 \<noteq> 63.25"
  by (simp add: autoHydration_def style_ny_street_def math_round_def Let_def)

text \<open>
  C6, amended. When custom mode is off, the auto-adjust effect sets the hydration to the
  style's default plus 0.5 per 12 hours of cold ferment above the style's cold minimum
  plus 0.25 per hour of room ferment above the style's room minimum (either excess
  floored at 0), clamped into the style's hydration range and rounded to one decimal
  place; the effect runs when the style, the room hours or the cold hours differ from
  the render before. In custom mode neither effect changes the state. With default 62,
  cold minimum 24, room minimum 2, 48 cold hours and 3 room hours the result is 63.3.
\<close>

theorem autoHydration_rule:
  assumes "STYLES (selectedStyleId st) = Some style"
  shows "(let raw = hydration_default style
                    + 0.5 * (max 0 (coldFermentHours st - coldMin style) / 12)
                    + 0.25 * max 0 (roomTempHours st - roomMin style);
              clamped = min (hydration_max style) (max (hydration_min style) raw);
              h = autoHydration style (coldFermentHours st) (roomTempHours st)
          in (\<not> customMode st \<longrightarrow> effectAutoHydration st = Inr (st\<lparr>hydration := h\<rparr>))
           \<and> h = math_round (clamped * 10) / 10
           \<and> is_rounded (1 / 10) clamped (Finite h)
           \<and> (hydration_min style \<le> hydration_max style
                \<longrightarrow> hydration_min style \<le> clamped \<and> clamped \<le> hydration_max style)
           \<and> (\<not> customMode st
                \<and> (selectedStyleId prev \<noteq> selectedStyleId st
                     \<or> roomTempHours prev \<noteq> roomTempHours st
                     \<or> coldFermentHours prev \<noteq> coldFermentHours st)
                \<longrightarrow> runAutoHydration prev st = Inr (st\<lparr>hydration := h\<rparr>))
           \<and> (customMode st
                \<longrightarrow> effectAutoHydration st = Inr st \<and> runAutoHydration prev st = Inr st
                  \<and> effectStyleDefaults st = Inr st))"
proof -
  define clamped where "clamped = min (hydration_max style) (max (hydration_min style)
      (hydration_default style + 0.5 * (max 0 (coldFermentHours st - coldMin style) / 12)
        + 0.25 * max 0 (roomTempHours st - roomMin style)))"
  have h: "autoHydration style (coldFermentHours st) (roomTempHours st)
      = math_round (clamped * 10) / 10"
    by (simp add: autoHydration_def Let_def clamped_def)
  have eff: "\<not> customMode st \<Longrightarrow> effectAutoHydration st
      = Inr (st\<lparr>hydration := autoHydration style (coldFermentHours st) (roomTempHours st)\<rparr>)"
    by (simp add: effectAutoHydration_def assms)
  have run: "\<not> customMode st \<Longrightarrow> autoHydrationDeps prev \<noteq> autoHydrationDeps st \<Longrightarrow>
      runAutoHydration prev st
      = Inr (st\<lparr>hydration := autoHydration style (coldFermentHours st) (roomTempHours st)\<rparr>)"
    by (simp add: runAutoHydration_def eff)
  have manual: "customMode st \<Longrightarrow> effectAutoHydration st = Inr st
      \<and> runAutoHydration prev st = Inr st \<and> effectStyleDefaults st = Inr st"
    by (simp add: effectAutoHydration_def runAutoHydration_def effectStyleDefaults_def)
  have rounded: "is_rounded (1 / 10) clamped
      (Finite (autoHydration style (coldFermentHours st) (roomTempHours st)))"
    unfolding h by (rule math_round_tenth)
  have range: "hydration_min style \<le> hydration_max style \<Longrightarrow>
      hydration_min style \<le> clamped \<and> clamped \<le> hydration_max style"
    by (simp add: clamped_def)
  show ?thesis
    unfolding Let_def clamped_def [symmetric]
    using h eff run manual rounded range
    by (auto simp: autoHydrationDeps_def)
qed

theorem autoHydration_rule_witness:
  "STYLES (selectedStyleId initialState) = Some style_ny_street
   \<and> \<not> customMode initialState
   \<and> effectAutoHydration initialState = Inr (initialState\<lparr>hydration := 63.3\<rparr>)
   \<and> runAutoHydration (initialState\<lparr>coldFermentHours := 24\<rparr>) initialState
       = Inr (initialState\<lparr>hydration := 63.3\<rparr>)
   \<and> effectAutoHydration (initialState\<lparr>customMode := True\<rparr>)
       = Inr (initialState\<lparr>customMode := True\<rparr>)"
proof -
  have s: "STYLES (selectedStyleId initialState) = Some style_ny_street"
    by (simp add: STYLES_def initialState_def)
  have s': "STYLES (selectedStyleId (initialState\<lparr>customMode := True\<rparr>)) = Some style_ny_street"
    by (simp add: STYLES_def initialState_def)
  have v: "autoHydration style_ny_street 48 3 = 63.3"
    by (simp add: autoHydration_def style_ny_street_def math_round_def Let_def)
  show ?thesis
    using s autoHydration_rule [OF s, of "initialState\<lparr>coldFermentHours := 24\<rparr>"]
      autoHydration_rule [OF s', of initialState]
    by (simp add: Let_def v) (simp add: initialState_def v)
qed

subsection \<open>Timeline\<close>

lemma trunc_of_int: "trunc (of_int n) = n"
  by (simp add: trunc_def)

lemma newDate_sub_hours:
  assumes "h = of_int n" and "\<bar>T - n * 3600000\<bar> \<le> 8640000000000000"
  shows "newDate (jsub (getTime (ValidDate T)) (Finite (h * 60 * 60 * 1000)))
       = ValidDate (T - n * 3600000)"
proof -
  have "jsub (getTime (ValidDate T)) (Finite (h * 60 * 60 * 1000))
      = Finite (of_int (T - n * 3600000))"
    by (simp add: jsub_def getTime_def assms(1))
  moreover have "\<bar>real_of_int (T - n * 3600000)\<bar> \<le> 8640000000000000"
    using assms(2) by linarith
  ultimately show ?thesis
    by (simp only: newDate_def jsnum.case trunc_of_int if_True)
qed

text \<open>
  Every style of the table has a balling lead time of a whole number of hours (0, 2, 4
  or 6); the cold and room hours come from range sliders of step 1 and from the style
  defaults, whole numbers too.
\<close>

lemma STYLES_ballingTime:
  "STYLES sid = Some style \<Longrightarrow> ballingTime style \<in> {0, 2, 4, 6}"
  by (auto simp: STYLES_def style_thin_def style_ny_street_def style_medium_def
      style_neapolitan_def style_detroit_def split: if_splits)

text \<open>
  C7. For every bake timestamp \<open>T\<close>, balling lead time \<open>b\<close>, cold-ferment duration \<open>c\<close>
  and room-temperature duration \<open>r\<close>, each a whole number of hours, with the three
  results valid dates (within 8.64e15 ms of the epoch), the ball time is \<open>T\<close> minus \<open>b\<close>
  hours, the cold-ferment start is the ball time minus \<open>c\<close> hours and the mix time is the
  cold-ferment start minus \<open>r\<close> hours, in milliseconds; when \<open>b\<close>, \<open>c\<close>, \<open>r\<close> are positive,
  mix time < cold start < ball time < \<open>T\<close>. With \<open>b = 4\<close>, \<open>c = 48\<close>, \<open>r = 3\<close> these are
  \<open>T\<close> minus 4, 52 and 55 hours.
\<close>

theorem timeline_whole_hours:
  assumes "ballingTime style = of_int b"
      and "coldFermentHours st = of_int c"
      and "roomTempHours st = of_int r"
      and "\<bar>T - b * 3600000\<bar> \<le> 8640000000000000"
      and "\<bar>T - b * 3600000 - c * 3600000\<bar> \<le> 8640000000000000"
      and "\<bar>T - b * 3600000 - c * 3600000 - r * 3600000\<bar> \<le> 8640000000000000"
  shows "ballDate (ValidDate T) style = ValidDate (T - b * 3600000)
       \<and> coldStartDate (ValidDate T) style st = ValidDate (T - b * 3600000 - c * 3600000)
       \<and> startMixDate (ValidDate T) style st
           = ValidDate (T - b * 3600000 - c * 3600000 - r * 3600000)
       \<and> (0 < ballingTime style \<and> 0 < coldFermentHours st \<and> 0 < roomTempHours st
            \<longrightarrow> jlt (getTime (startMixDate (ValidDate T) style st))
                     (getTime (coldStartDate (ValidDate T) style st))
              \<and> jlt (getTime (coldStartDate (ValidDate T) style st))
                     (getTime (ballDate (ValidDate T) style))
              \<and> jlt (getTime (ballDate (ValidDate T) style)) (getTime (ValidDate T)))"
proof -
  have ball: "ballDate (ValidDate T) style = ValidDate (T - b * 3600000)"
    unfolding ballDate_def using assms(1,4) by (rule newDate_sub_hours)
  have cold: "coldStartDate (ValidDate T) style st
      = ValidDate (T - b * 3600000 - c * 3600000)"
    unfolding coldStartDate_def ball using assms(2,5) by (rule newDate_sub_hours)
  have mix: "startMixDate (ValidDate T) style st
      = ValidDate (T - b * 3600000 - c * 3600000 - r * 3600000)"
    unfolding startMixDate_def cold using assms(3,6) by (rule newDate_sub_hours)
  show ?thesis
    unfolding ball cold mix by (simp add: getTime_def assms(1,2,3))
qed

theorem timeline_whole_hours_witness:
  "ballDate (ValidDate 1800000000000) style_ny_street = ValidDate (1800000000000 - 4 * 3600000)
   \<and> coldStartDate (ValidDate 1800000000000) style_ny_street initialState
       = ValidDate (1800000000000 - 52 * 3600000)
   \<and> startMixDate (ValidDate 1800000000000) style_ny_street initialState
       = ValidDate (1800000000000 - 55 * 3600000)
   \<and> jlt (getTime (startMixDate (ValidDate 1800000000000) style_ny_street initialState))
          (getTime (coldStartDate (ValidDate 1800000000000) style_ny_street initialState))
   \<and> jlt (getTime (coldStartDate (ValidDate 1800000000000) style_ny_street initialState))
          (getTime (ballDate (ValidDate 1800000000000) style_ny_street))
   \<and> jlt (getTime (ballDate (ValidDate 1800000000000) style_ny_street))
          (getTime (ValidDate 1800000000000))"
proof -
  have b: "ballingTime style_ny_street = of_int 4"
    by (simp add: style_ny_street_def)
  have c: "coldFermentHours initialState = of_int 48"
    by (simp add: initialState_def)
  have r: "roomTempHours initialState = of_int 3"
    by (simp add: initialState_def)
  have p: "0 < ballingTime style_ny_street \<and> 0 < coldFermentHours initialState
           \<and> 0 < roomTempHours initialState"
    by (simp add: style_ny_street_def initialState_def)
  show ?thesis
    using p timeline_whole_hours [OF b c r, of 1800000000000]
    by (simp add: getTime_def)
qed

end
